theory Spec2Isabelle
  imports
    Main
    "HOL-Library.List_Lexorder"
    "HOL-Library.Product_Lexorder"
    "HOL-Library.Multiset"
begin

section \<open>Python values and the library functions the module calls\<close>

text \<open>
  The module under verification is \<^verbatim>\<open>auth.py\<close>: password hashing, the password
  policy, and the operations on the SQLite table \<^verbatim>\<open>users\<close>.

  A Python \<^verbatim>\<open>str\<close> is a sequence of Unicode code points and \<^verbatim>\<open>len\<close> counts code
  points, so a string is a list of code points here. Strings are taken to be well-formed
  text (no lone surrogate), so that UTF-8 encoding and SQLite's text binding succeed.
  A \<^verbatim>\<open>bytes\<close> value is a list of byte values.
\<close>

type_synonym pystr = "nat list"
type_synonym bytes = "nat list"

definition ascii :: "string \<Rightarrow> pystr" where
  "ascii s = map of_char s"

text \<open>
  The parameters are annotated \<^verbatim>\<open>str\<close>, but the code tests
  \<^verbatim>\<open>isinstance(password, str)\<close> itself, so a password is any Python value; only
  whether it is a string, and which, matters to the code.
\<close>

datatype pyval = PyStr pystr | PyNone | PyInt int

text \<open>
  What the Python runtime supplies and the repository does not contain: the key
  derivation \<^verbatim>\<open>hashlib.pbkdf2_hmac("sha256", password.encode("utf-8"), salt, iterations)\<close>
  (taken with the encoding of its first argument), and the Unicode character database
  for the code points from 128 on, as \<^verbatim>\<open>str.isspace\<close>, \<^verbatim>\<open>str.isdecimal\<close> and
  \<^verbatim>\<open>str.isalnum\<close> read it. Every function below takes them as the parameter \<open>L\<close>.
\<close>

record pylib =
  pbkdf2_hmac_sha256 :: "pystr \<Rightarrow> bytes \<Rightarrow> nat \<Rightarrow> bytes"
  uni_isspace :: "nat \<Rightarrow> bool"
  uni_isdecimal :: "nat \<Rightarrow> bool"
  uni_isalnum :: "nat \<Rightarrow> bool"

text \<open>
  Whitespace as \<^verbatim>\<open>str.strip()\<close> and the pattern \<^verbatim>\<open>\s\<close> see it. In the ASCII range
  these are the characters 9 to 13 (tab, line feed, vertical tab, form feed, carriage
  return), 28 to 31 (the separators) and 32 (space).
\<close>

definition isspace :: "pylib \<Rightarrow> nat \<Rightarrow> bool" where
  "isspace L c =
     (if c < 128 then (9 \<le> c \<and> c \<le> 13) \<or> (28 \<le> c \<and> c \<le> 32) else uni_isspace L c)"

text \<open>The character classes of the four patterns: \<^verbatim>\<open>[a-z]\<close>, \<^verbatim>\<open>[A-Z]\<close>, \<^verbatim>\<open>\d\<close> and \<^verbatim>\<open>\w\<close>.\<close>

definition re_lower :: "nat \<Rightarrow> bool" where
  "re_lower c = (97 \<le> c \<and> c \<le> 122)"

definition re_upper :: "nat \<Rightarrow> bool" where
  "re_upper c = (65 \<le> c \<and> c \<le> 90)"

definition re_digit :: "pylib \<Rightarrow> nat \<Rightarrow> bool" where
  "re_digit L c = (if c < 128 then 48 \<le> c \<and> c \<le> 57 else uni_isdecimal L c)"

text \<open>
  \<^verbatim>\<open>str.isalnum\<close> on one character; in the ASCII range these are the digits and the
  letters. The pattern \<^verbatim>\<open>\w\<close> is an alphanumeric character or the underscore (code
  point 95).
\<close>

definition isalnum :: "pylib \<Rightarrow> nat \<Rightarrow> bool" where
  "isalnum L c =
     (if c < 128 then (48 \<le> c \<and> c \<le> 57) \<or> (65 \<le> c \<and> c \<le> 90) \<or> (97 \<le> c \<and> c \<le> 122)
      else uni_isalnum L c)"

definition re_word :: "pylib \<Rightarrow> nat \<Rightarrow> bool" where
  "re_word L c = (isalnum L c \<or> c = 95)"

text \<open>\<^verbatim>\<open>[^\w\s]\<close>: a character that is neither a word character nor whitespace.\<close>

definition re_special :: "pylib \<Rightarrow> nat \<Rightarrow> bool" where
  "re_special L c = (\<not> re_word L c \<and> \<not> isspace L c)"

text \<open>\<^verbatim>\<open>re.search\<close> with a pattern that is one character class: some character is in it.\<close>

definition re_search :: "(nat \<Rightarrow> bool) \<Rightarrow> pystr \<Rightarrow> bool" where
  "re_search cls s = list_ex cls s"

text \<open>\<^verbatim>\<open>(username or "").strip()\<close>: \<^verbatim>\<open>None\<close> counts as the empty string.\<close>

definition strip :: "pylib \<Rightarrow> pystr \<Rightarrow> pystr" where
  "strip L s = rev (dropWhile (isspace L) (rev (dropWhile (isspace L) s)))"

definition or_empty :: "pystr option \<Rightarrow> pystr" where
  "or_empty username = (case username of None \<Rightarrow> [] | Some s \<Rightarrow> s)"

section \<open>The data: users, rows, the table, errors\<close>

text \<open>The frozen dataclass \<^verbatim>\<open>User\<close>.\<close>

record user =
  user_id :: nat
  user_username :: pystr
  user_is_admin :: bool

text \<open>A row of the table \<^verbatim>\<open>users\<close>; \<open>is_admin\<close> is the INTEGER column.\<close>

record user_row =
  row_id :: nat
  row_username :: pystr
  row_salt :: bytes
  row_pw_hash :: bytes
  row_is_admin :: int
  row_created_at :: pystr

text \<open>
  The table holds its rows in insertion order, and \<open>tbl_seq\<close> is the largest id handed
  out so far (the AUTOINCREMENT counter; ids are unbounded naturals here, SQLite's stop
  at \<open>2^63 - 1\<close>). A database file in which the table was never created is \<open>None\<close>:
  every statement on it raises \<^verbatim>\<open>sqlite3.OperationalError\<close>. Directories and files
  (\<^verbatim>\<open>os.makedirs\<close>, opening the file) are outside the model.
\<close>

record users_table =
  tbl_rows :: "user_row list"
  tbl_seq :: nat

type_synonym database = "users_table option"

text \<open>
  The exceptions the module raises or lets through: \<^verbatim>\<open>ValueError\<close> with its message,
  \<^verbatim>\<open>sqlite3.IntegrityError\<close> (the UNIQUE constraint on \<open>username\<close>) and
  \<^verbatim>\<open>sqlite3.OperationalError\<close> (no such table). An operation that writes returns
  the database it leaves behind together with its result or its exception; a statement
  that raises is rolled back, so it leaves the database it found.
\<close>

datatype error = ValueError string | IntegrityError | OperationalError

text \<open>
  What the environment hands to one \<^verbatim>\<open>create_user\<close> or \<^verbatim>\<open>set_password\<close> call: the
  result of \<^verbatim>\<open>secrets.token_bytes(16)\<close> and of SQLite's \<^verbatim>\<open>datetime('now')\<close>.
\<close>

record draw =
  token_bytes :: bytes
  datetime_now :: pystr

section \<open>Password hashing and the password policy\<close>

definition hash_password :: "pylib \<Rightarrow> pyval \<Rightarrow> bytes \<Rightarrow> error + bytes" where
  "hash_password L password salt =
     (case password of
        PyStr s \<Rightarrow>
          if s = [] then Inl (ValueError ''Password must be a non-empty string.'')
          else Inr (pbkdf2_hmac_sha256 L s salt 200000)
      | _ \<Rightarrow> Inl (ValueError ''Password must be a non-empty string.''))"

definition validate_password_rules :: "pylib \<Rightarrow> pyval \<Rightarrow> bool \<times> string" where
  "validate_password_rules L password =
     (case password of
        PyStr s \<Rightarrow>
          if length s < 8 then (False, ''Password must be at least 8 characters.'')
          else if \<not> re_search re_lower s then
            (False, ''Password must contain at least one lowercase letter.'')
          else if \<not> re_search re_upper s then
            (False, ''Password must contain at least one uppercase letter.'')
          else if \<not> re_search (re_digit L) s then
            (False, ''Password must contain at least one digit.'')
          else if \<not> re_search (re_special L) s then
            (False, ''Password must contain at least one special character (e.g., !@#$%).'')
          else (True, ''OK'')
      | _ \<Rightarrow> (False, ''Password must be text.''))"

section \<open>The operations on the table\<close>

text \<open>\<^verbatim>\<open>SELECT ... WHERE username = ?\<close> with \<^verbatim>\<open>fetchone()\<close>: the first matching row.\<close>

definition select_user :: "users_table \<Rightarrow> pystr \<Rightarrow> user_row option" where
  "select_user t u = find (\<lambda>r. row_username r = u) (tbl_rows t)"

definition to_user :: "user_row \<Rightarrow> user" where
  "to_user r =
     \<lparr>user_id = row_id r, user_username = row_username r, user_is_admin = (row_is_admin r \<noteq> 0)\<rparr>"

text \<open>
  \<^verbatim>\<open>INSERT INTO users (username, salt, pw_hash, is_admin, created_at)\<close>: refused when a
  row has the username already; otherwise the row goes last with the next id.
\<close>

definition insert_user ::
  "users_table \<Rightarrow> pystr \<Rightarrow> bytes \<Rightarrow> bytes \<Rightarrow> int \<Rightarrow> pystr \<Rightarrow> error + users_table" where
  "insert_user t u salt pw_hash adm now =
     (if list_ex (\<lambda>r. row_username r = u) (tbl_rows t) then Inl IntegrityError
      else Inr \<lparr>tbl_rows = tbl_rows t @
                   [\<lparr>row_id = Suc (tbl_seq t), row_username = u, row_salt = salt,
                     row_pw_hash = pw_hash, row_is_admin = adm, row_created_at = now\<rparr>],
                 tbl_seq = Suc (tbl_seq t)\<rparr>)"

definition create_user ::
  "pylib \<Rightarrow> draw \<Rightarrow> database \<Rightarrow> pystr option \<Rightarrow> pyval \<Rightarrow> bool \<Rightarrow> bool
     \<Rightarrow> database \<times> (error + unit)" where
  "create_user L d db username password is_admin enforce_rules =
     (let u = strip L (or_empty username) in
      if u = [] then (db, Inl (ValueError ''Username cannot be empty.''))
      else if enforce_rules \<and> \<not> fst (validate_password_rules L password) then
        (db, Inl (ValueError (snd (validate_password_rules L password))))
      else
        case hash_password L password (token_bytes d) of
          Inl e \<Rightarrow> (db, Inl e)
        | Inr pw_hash \<Rightarrow>
            (case db of
               None \<Rightarrow> (db, Inl OperationalError)
             | Some t \<Rightarrow>
                 (case insert_user t u (token_bytes d) pw_hash (if is_admin then 1 else 0)
                         (datetime_now d) of
                    Inl e \<Rightarrow> (db, Inl e)
                  | Inr t' \<Rightarrow> (Some t', Inr ()))))"

text \<open>\<^verbatim>\<open>DELETE FROM users WHERE username = ?\<close>; \<^verbatim>\<open>rowcount\<close> is the number of rows deleted.\<close>

definition delete_user :: "pylib \<Rightarrow> database \<Rightarrow> pystr option \<Rightarrow> database \<times> (error + bool)" where
  "delete_user L db username =
     (let u = strip L (or_empty username) in
      if u = [] then (db, Inr False)
      else
        case db of
          None \<Rightarrow> (db, Inl OperationalError)
        | Some t \<Rightarrow>
            (let kept = filter (\<lambda>r. row_username r \<noteq> u) (tbl_rows t);
                 rowcount = length (tbl_rows t) - length kept
             in (Some (t\<lparr>tbl_rows := kept\<rparr>), Inr (rowcount > 0))))"

text \<open>
  \<^verbatim>\<open>SELECT username, is_admin FROM users ORDER BY is_admin DESC, username ASC\<close>. Text is
  compared code point by code point (the BINARY collation), which is the lexicographic
  order on lists. The UNIQUE constraint leaves no two rows with the same key, so the
  order in which a sort leaves equal keys does not show.
\<close>

definition list_users :: "database \<Rightarrow> error + (pystr \<times> bool) list" where
  "list_users db =
     (case db of
        None \<Rightarrow> Inl OperationalError
      | Some t \<Rightarrow>
          Inr (map (\<lambda>r. (row_username r, row_is_admin r \<noteq> 0))
                 (sort_key (\<lambda>r. (- row_is_admin r, row_username r)) (tbl_rows t))))"

definition get_user_by_username :: "pylib \<Rightarrow> database \<Rightarrow> pystr option \<Rightarrow> error + user option" where
  "get_user_by_username L db username =
     (let u = strip L (or_empty username) in
      if u = [] then Inr None
      else
        case db of
          None \<Rightarrow> Inl OperationalError
        | Some t \<Rightarrow>
            (case select_user t u of
               None \<Rightarrow> Inr None
             | Some r \<Rightarrow> Inr (Some (to_user r))))"

text \<open>
  \<^verbatim>\<open>secrets.compare_digest\<close> on two \<^verbatim>\<open>bytes\<close> values returns whether they are equal;
  the \<^verbatim>\<open>ValueError\<close> of the hasher is caught and answered with \<^verbatim>\<open>None\<close>.
\<close>

definition authenticate :: "pylib \<Rightarrow> database \<Rightarrow> pystr option \<Rightarrow> pyval \<Rightarrow> error + user option" where
  "authenticate L db username password =
     (let u = strip L (or_empty username) in
      if u = [] then Inr None
      else
        case db of
          None \<Rightarrow> Inl OperationalError
        | Some t \<Rightarrow>
            (case select_user t u of
               None \<Rightarrow> Inr None
             | Some r \<Rightarrow>
                 (case hash_password L password (row_salt r) of
                    Inl e \<Rightarrow> Inr None
                  | Inr candidate \<Rightarrow>
                      if candidate = row_pw_hash r then Inr (Some (to_user r)) else Inr None)))"

text \<open>\<^verbatim>\<open>UPDATE users SET salt = ?, pw_hash = ? WHERE username = ?\<close>.\<close>

definition set_password ::
  "pylib \<Rightarrow> draw \<Rightarrow> database \<Rightarrow> pystr option \<Rightarrow> pyval \<Rightarrow> database \<times> (error + bool)" where
  "set_password L d db username new_password =
     (let u = strip L (or_empty username) in
      if u = [] then (db, Inr False)
      else if \<not> fst (validate_password_rules L new_password) then
        (db, Inl (ValueError (snd (validate_password_rules L new_password))))
      else
        case hash_password L new_password (token_bytes d) of
          Inl e \<Rightarrow> (db, Inl e)
        | Inr pw_hash \<Rightarrow>
            (case db of
               None \<Rightarrow> (db, Inl OperationalError)
             | Some t \<Rightarrow>
                 (let rowcount = length (filter (\<lambda>r. row_username r = u) (tbl_rows t));
                      updated = map (\<lambda>r. if row_username r = u
                                           then r\<lparr>row_salt := token_bytes d, row_pw_hash := pw_hash\<rparr>
                                           else r) (tbl_rows t)
                  in (Some (t\<lparr>tbl_rows := updated\<rparr>), Inr (rowcount > 0)))))"

section \<open>Initialisation and seeding\<close>





section \<open>What the module's writes maintain, and the policy in the specification's words\<close>

text \<open>
  The state of a table that only this module writes: usernames are unique (the UNIQUE
  constraint) and not empty, and \<open>is_admin\<close> is 0 or 1 (\<^verbatim>\<open>create_user\<close> writes
  nothing else).
\<close>

definition table_ok :: "users_table \<Rightarrow> bool" where
  "table_ok t =
     (distinct (map row_username (tbl_rows t)) \<and>
      (\<forall>r \<in> set (tbl_rows t). row_username r \<noteq> [] \<and> (row_is_admin r = 0 \<or> row_is_admin r = 1)))"

text \<open>
  The fifth rule as the specification words it, "at least one character that is neither
  alphanumeric nor whitespace", and the five rules together in those words.
\<close>

definition spec_special :: "pylib \<Rightarrow> nat \<Rightarrow> bool" where
  "spec_special L c = (\<not> isalnum L c \<and> \<not> isspace L c)"

definition spec_policy :: "pylib \<Rightarrow> pystr \<Rightarrow> bool" where
  "spec_policy L s =
     (8 \<le> length s \<and> list_ex re_lower s \<and> list_ex re_upper s \<and> list_ex (re_digit L) s \<and>
      list_ex (spec_special L) s)"

text \<open>
  The order that \<^verbatim>\<open>ORDER BY is_admin DESC, username ASC\<close> gives under SQLite's default
  BINARY collation: every admin account stands before every other account, and accounts
  with the same flag stand in strictly ascending order of their usernames, compared code
  point by code point. In this order every capital letter stands before every small one.
\<close>

definition admins_first_by_code_point :: "(pystr \<times> bool) list \<Rightarrow> bool" where
  "admins_first_by_code_point out =
     sorted_wrt (\<lambda>a b. (snd b \<longrightarrow> snd a) \<and> (snd a = snd b \<longrightarrow> fst a < fst b)) out"

text \<open>
  The order of the listing in the specification's words, "admins first, then alphabetical
  by username": the order of a dictionary, in which the case of a letter plays no part,
  so that \<^verbatim>\<open>amy\<close> stands before \<^verbatim>\<open>Zed\<close>.
\<close>

definition fold_case :: "nat \<Rightarrow> nat" where
  "fold_case c = (if 65 \<le> c \<and> c \<le> 90 then c + 32 else c)"

definition spec_alphabetical :: "pystr \<Rightarrow> pystr \<Rightarrow> bool" where
  "spec_alphabetical a b = (map fold_case a \<le> map fold_case b)"

definition spec_admins_first_alphabetical :: "(pystr \<times> bool) list \<Rightarrow> bool" where
  "spec_admins_first_alphabetical out =
     sorted_wrt (\<lambda>a b. (snd b \<longrightarrow> snd a) \<and>
                       (snd a = snd b \<longrightarrow> spec_alphabetical (fst a) (fst b))) out"

text \<open>
  An instance of the library parameters, for evaluating the operations on concrete
  inputs: no character from 128 on is in any class, and the key derivation is replaced by
  the salt followed by the password.
\<close>

definition demo_lib :: pylib where
  "demo_lib =
     \<lparr>pbkdf2_hmac_sha256 = (\<lambda>password salt iterations. salt @ password),
      uni_isspace = (\<lambda>c. False), uni_isdecimal = (\<lambda>c. False), uni_isalnum = (\<lambda>c. False)\<rparr>"

definition demo_draw :: "nat \<Rightarrow> draw" where
  "demo_draw n = \<lparr>token_bytes = replicate 16 n, datetime_now = ascii ''2024-01-01 00:00:00''\<rparr>"

definition empty_table :: users_table where
  "empty_table = \<lparr>tbl_rows = [], tbl_seq = 0\<rparr>"

text \<open>
  A table with two accounts, as \<^verbatim>\<open>create_user\<close> writes them under \<open>demo_lib\<close>:
  \<^verbatim>\<open>admin\<close> with the password \<^verbatim>\<open>Admin123!\<close> and \<^verbatim>\<open>guest\<close> with \<^verbatim>\<open>Guest123!\<close>.
\<close>

definition demo_table :: users_table where
  "demo_table =
     \<lparr>tbl_rows =
        [\<lparr>row_id = 1, row_username = ascii ''admin'', row_salt = replicate 16 0,
          row_pw_hash = replicate 16 0 @ ascii ''Admin123!'', row_is_admin = 1,
          row_created_at = ascii ''2024-01-01 00:00:00''\<rparr>,
         \<lparr>row_id = 2, row_username = ascii ''guest'', row_salt = replicate 16 1,
          row_pw_hash = replicate 16 1 @ ascii ''Guest123!'', row_is_admin = 0,
          row_created_at = ascii ''2024-01-01 00:00:00''\<rparr>],
      tbl_seq = 2\<rparr>"

text \<open>
  A table of four accounts in the order of their creation, two of them admins, for the
  listing; one of the other two usernames begins with a capital letter.
\<close>

definition listing_table :: users_table where
  "listing_table =
     \<lparr>tbl_rows =
        [\<lparr>row_id = 1, row_username = ascii ''amy'', row_salt = replicate 16 1,
          row_pw_hash = replicate 16 1 @ ascii ''Amy12345!'', row_is_admin = 0,
          row_created_at = ascii ''2024-01-01 00:00:00''\<rparr>,
         \<lparr>row_id = 2, row_username = ascii ''zoe'', row_salt = replicate 16 2,
          row_pw_hash = replicate 16 2 @ ascii ''Zoe12345!'', row_is_admin = 1,
          row_created_at = ascii ''2024-01-01 00:00:00''\<rparr>,
         \<lparr>row_id = 3, row_username = ascii ''Zed'', row_salt = replicate 16 3,
          row_pw_hash = replicate 16 3 @ ascii ''Zed12345!'', row_is_admin = 0,
          row_created_at = ascii ''2024-01-01 00:00:00''\<rparr>,
         \<lparr>row_id = 4, row_username = ascii ''admin'', row_salt = replicate 16 4,
          row_pw_hash = replicate 16 4 @ ascii ''Admin123!'', row_is_admin = 1,
          row_created_at = ascii ''2024-01-01 00:00:00''\<rparr>],
      tbl_seq = 4\<rparr>"

section \<open>Facts about trimming, lookup and insertion\<close>

lemmas lib_defs =
  demo_lib_def demo_draw_def empty_table_def ascii_def or_empty_def strip_def isspace_def
  isalnum_def re_lower_def re_upper_def re_digit_def re_word_def re_special_def re_search_def

lemmas op_defs =
  hash_password_def validate_password_rules_def select_user_def to_user_def insert_user_def
  create_user_def delete_user_def list_users_def get_user_by_username_def authenticate_def
  set_password_def Let_def

lemma strip_idem: "strip L (strip L s) = strip L s"
proof -
  define P where "P = isspace L"
  define a where "a = dropWhile P s"
  define b where "b = rev (dropWhile P (rev a))"
  have sb: "strip L s = b" by (simp add: strip_def b_def a_def P_def)
  have "a = b @ rev (takeWhile P (rev a))"
    unfolding b_def by (metis rev_append rev_rev_ident takeWhile_dropWhile_id)
  then obtain ws where parts: "a = b @ ws" by blast
  have rear: "dropWhile P (rev b) = rev b"
    by (simp add: b_def dropWhile_idem)
  have front: "dropWhile P b = b"
  proof (cases b)
    case Nil
    then show ?thesis by simp
  next
    case (Cons x xs)
    with parts have "a \<noteq> []" and "hd a = x" by auto
    then have "\<not> P x" unfolding a_def using hd_dropWhile by metis
    with Cons show ?thesis by simp
  qed
  have "strip L b = rev (dropWhile P (rev (dropWhile P b)))"
    by (simp add: strip_def P_def)
  also have "\<dots> = b" by (simp add: front rear)
  finally show ?thesis by (simp add: sb)
qed

lemma find_append:
  "find P (xs @ ys) = (case find P xs of None \<Rightarrow> find P ys | Some x \<Rightarrow> Some x)"
  by (induction xs) auto

lemma create_user_Inr:
  assumes "create_user L d db username password is_admin enforce_rules = (db', Inr ok)"
  shows "\<exists>t s. db = Some t \<and> password = PyStr s \<and> s \<noteq> [] \<and> strip L (or_empty username) \<noteq> []
     \<and> (enforce_rules \<longrightarrow> fst (validate_password_rules L password))
     \<and> select_user t (strip L (or_empty username)) = None
     \<and> db' = Some \<lparr>tbl_rows = tbl_rows t @
                   [\<lparr>row_id = Suc (tbl_seq t), row_username = strip L (or_empty username),
                     row_salt = token_bytes d,
                     row_pw_hash = pbkdf2_hmac_sha256 L s (token_bytes d) 200000,
                     row_is_admin = (if is_admin then 1 else 0), row_created_at = datetime_now d\<rparr>],
                 tbl_seq = Suc (tbl_seq t)\<rparr>"
  using assms
  by (auto simp: create_user_def Let_def hash_password_def insert_user_def select_user_def
      find_None_iff list_ex_iff
      split: if_splits sum.splits option.splits pyval.splits)

lemma authenticate_strip:
  "authenticate L db (Some (strip L (or_empty username))) password = authenticate L db username password"
  by (simp add: authenticate_def or_empty_def strip_idem)

lemma select_user_Some:
  "select_user t u = Some r \<Longrightarrow> r \<in> set (tbl_rows t) \<and> row_username r = u"
  by (auto simp: select_user_def find_Some_iff)

lemma select_user_None:
  "select_user t u = None \<longleftrightarrow> (\<forall>r\<in>set (tbl_rows t). row_username r \<noteq> u)"
  by (auto simp: select_user_def find_None_iff)

lemma distinct_map_filter_one:
  "distinct (map f xs) \<Longrightarrow> x \<in> set xs \<Longrightarrow> length (filter (\<lambda>r. f r = f x) xs) = 1"
proof (induction xs)
  case Nil
  then show ?case by simp
next
  case (Cons a xs)
  show ?case
  proof (cases "f a = f x")
    case True
    with Cons.prems have "f x \<notin> f ` set xs" by simp
    then have "\<forall>r\<in>set xs. f r \<noteq> f x" by (metis imageI)
    then have "filter (\<lambda>r. f r = f x) xs = []" by (simp add: filter_empty_conv)
    with True show ?thesis by simp
  next
    case False
    with Cons show ?thesis by auto
  qed
qed

lemma table_ok_count:
  assumes "table_ok t" and "select_user t u = Some r"
  shows "length (filter (\<lambda>r. row_username r = u) (tbl_rows t)) = 1"
  using distinct_map_filter_one[of row_username "tbl_rows t" r] assms select_user_Some[OF assms(2)]
  by (simp add: table_ok_def)

lemma demo_table_reachable:
  "create_user demo_lib (demo_draw 0) (Some empty_table) (Some (ascii ''admin''))
     (PyStr (ascii ''Admin123!'')) True False = (Some t1, Inr ()) \<Longrightarrow>
   create_user demo_lib (demo_draw 1) (Some t1) (Some (ascii ''guest''))
     (PyStr (ascii ''Guest123!'')) False False = (Some demo_table, Inr ())"
  by (auto simp add: lib_defs op_defs demo_table_def)

lemma demo_table_ok: "table_ok demo_table"
  by (simp add: table_ok_def demo_table_def ascii_def)

lemma demo_select_admin:
  "select_user demo_table (strip demo_lib (or_empty (Some (ascii ''admin'')))) =
     Some (hd (tbl_rows demo_table))"
  by (simp add: lib_defs select_user_def demo_table_def)


lemma validate_ok_nonempty:
  "fst (validate_password_rules L p) \<Longrightarrow> \<exists>s. p = PyStr s \<and> s \<noteq> []"
  by (auto simp: validate_password_rules_def split: pyval.splits if_splits)


lemma table_rows_same: "t\<lparr>tbl_rows := tbl_rows t\<rparr> = t"
  by simp

lemma sort_key_rows_strict:
  assumes "table_ok t"
  shows "sorted_wrt (<) (map (\<lambda>r. (- row_is_admin r, row_username r))
           (sort_key (\<lambda>r. (- row_is_admin r, row_username r)) (tbl_rows t)))"
proof -
  let ?k = "\<lambda>r. (- row_is_admin r, row_username r)"
  have d: "distinct (map row_username (tbl_rows t))"
    using assms by (simp add: table_ok_def)
  have "map row_username (tbl_rows t) = map snd (map ?k (tbl_rows t))" by simp
  with d have dk: "distinct (map ?k (tbl_rows t))"
    by (metis distinct_map)
  have "distinct (map ?k (sort_key ?k (tbl_rows t)))"
    using dk by (simp add: distinct_map)
  moreover have "sorted (map ?k (sort_key ?k (tbl_rows t)))"
    by (rule sorted_sort_key)
  ultimately show ?thesis
    by (simp add: strict_sorted_iff)
qed

text \<open>
  The three operations that write keep a table in the state of \<open>table_ok\<close>, whether they
  return or raise.
\<close>

lemma create_user_table_ok:
  assumes "table_ok t" and "create_user L d (Some t) username password is_admin enforce_rules = (Some t', res)"
  shows "table_ok t'"
proof (cases res)
  case (Inl e)
  with assms(2) have "t' = t"
    by (auto simp: create_user_def Let_def split: if_splits sum.splits)
  with assms(1) show ?thesis by simp
next
  case (Inr ok)
  with assms(2) obtain u h where u: "u \<noteq> []"
    and ins: "insert_user t u (token_bytes d) h (if is_admin then 1 else 0) (datetime_now d) = Inr t'"
    by (auto simp: create_user_def Let_def split: if_splits sum.splits)
  from ins have nin: "\<not> list_ex (\<lambda>r. row_username r = u) (tbl_rows t)"
    and t': "t' = \<lparr>tbl_rows = tbl_rows t @
                 [\<lparr>row_id = Suc (tbl_seq t), row_username = u, row_salt = token_bytes d,
                   row_pw_hash = h, row_is_admin = (if is_admin then 1 else 0),
                   row_created_at = datetime_now d\<rparr>],
               tbl_seq = Suc (tbl_seq t)\<rparr>"
    by (auto simp: insert_user_def split: if_splits)
  from nin have "u \<notin> set (map row_username (tbl_rows t))"
    by (auto simp: list_ex_iff)
  with assms(1) u show ?thesis
    by (auto simp: table_ok_def t')
qed

lemma delete_user_table_ok:
  assumes "table_ok t" and "delete_user L (Some t) username = (Some t', res)"
  shows "table_ok t'"
proof -
  from assms(2) have "t' = t \<or> (\<exists>u. t' = t\<lparr>tbl_rows := filter (\<lambda>r. row_username r \<noteq> u) (tbl_rows t)\<rparr>)"
    by (auto simp: delete_user_def Let_def split: if_splits)
  with assms(1) show ?thesis
    by (auto simp: table_ok_def distinct_map_filter)
qed

lemma set_password_table_ok:
  assumes "table_ok t" and "set_password L d (Some t) username new_password = (Some t', res)"
  shows "table_ok t'"
proof -
  from assms(2) have "t' = t \<or> (\<exists>f. (\<forall>r. row_username (f r) = row_username r \<and> row_is_admin (f r) = row_is_admin r) \<and>
                              t' = t\<lparr>tbl_rows := map f (tbl_rows t)\<rparr>)"
  proof (cases "t' = t")
    case True then show ?thesis by simp
  next
    case False
    let ?u = "strip L (or_empty username)"
    from assms(2) False obtain h where
      "t' = t\<lparr>tbl_rows := map (\<lambda>r. if row_username r = ?u
                                   then r\<lparr>row_salt := token_bytes d, row_pw_hash := h\<rparr>
                                   else r) (tbl_rows t)\<rparr>"
      by (auto simp: set_password_def Let_def split: if_splits sum.splits)
    then show ?thesis
      by (intro disjI2 exI[of _ "\<lambda>r. if row_username r = ?u
                                   then r\<lparr>row_salt := token_bytes d, row_pw_hash := h\<rparr>
                                   else r"]) simp
  qed
  then show ?thesis
  proof
    assume "t' = t" with assms(1) show ?thesis by simp
  next
    assume "\<exists>f. (\<forall>r. row_username (f r) = row_username r \<and> row_is_admin (f r) = row_is_admin r) \<and>
                              t' = t\<lparr>tbl_rows := map f (tbl_rows t)\<rparr>"
    then obtain f where f: "\<forall>r. row_username (f r) = row_username r \<and> row_is_admin (f r) = row_is_admin r"
      and t': "t' = t\<lparr>tbl_rows := map f (tbl_rows t)\<rparr>" by blast
    have m: "map row_username (map f (tbl_rows t)) = map row_username (tbl_rows t)"
      using f by simp
    from assms(1) show ?thesis
      unfolding table_ok_def t' using f m by (auto simp del: map_map)
  qed
qed

text \<open>
  A reset does not compare the new password with the one in use: after a reset to the
  password the account already has, that password logs in as before.
\<close>

lemma set_password_to_current_password:
  "authenticate demo_lib (Some demo_table) (Some (ascii ''admin'')) (PyStr (ascii ''Admin123!'')) =
     Inr (Some \<lparr>user_id = 1, user_username = ascii ''admin'', user_is_admin = True\<rparr>) \<and>
   snd (set_password demo_lib (demo_draw 9) (Some demo_table) (Some (ascii ''admin''))
          (PyStr (ascii ''Admin123!''))) = Inr True \<and>
   authenticate demo_lib
     (fst (set_password demo_lib (demo_draw 9) (Some demo_table) (Some (ascii ''admin''))
          (PyStr (ascii ''Admin123!''))))
     (Some (ascii ''admin'')) (PyStr (ascii ''Admin123!'')) =
     Inr (Some \<lparr>user_id = 1, user_username = ascii ''admin'', user_is_admin = True\<rparr>)"
  by (simp add: lib_defs op_defs demo_table_def)

text \<open>
  The two ways a login fails give the same value: \<^verbatim>\<open>None\<close> when the username has no row,
  and \<^verbatim>\<open>None\<close> when the row's hash differs from the hash of the password given. The
  first returns before any hash is computed; how long a call takes is not part of the
  values modelled here.
\<close>

lemma authenticate_unknown_username:
  "select_user t (strip L (or_empty username)) = None \<Longrightarrow>
   authenticate L (Some t) username password = Inr None"
  by (simp add: authenticate_def Let_def)

lemma authenticate_wrong_password:
  "select_user t (strip L (or_empty username)) = Some r \<Longrightarrow>
   hash_password L password (row_salt r) \<noteq> Inr (row_pw_hash r) \<Longrightarrow>
   authenticate L (Some t) username password = Inr None"
  by (auto simp: authenticate_def Let_def split: sum.splits)

section \<open>Facts about the seeding\<close>







section \<open>C1: an account that was created can log in\<close>

text \<open>
  C1. Whenever \<^verbatim>\<open>create_user(username, password, is_admin, enforce_rules)\<close> returns
  without an exception, \<^verbatim>\<open>authenticate(username, password)\<close> on the database it
  leaves succeeds, and the \<^verbatim>\<open>User\<close> it returns has the trimmed username, the
  \<open>is_admin\<close> flag given to \<^verbatim>\<open>create_user\<close>, and the id of the new row.
\<close>

theorem create_then_authenticate:
  assumes "create_user L d db username password is_admin enforce_rules = (db', Inr ok)"
  shows "\<exists>t. db = Some t \<and>
           authenticate L db' username password =
             Inr (Some \<lparr>user_id = Suc (tbl_seq t),
                        user_username = strip L (or_empty username),
                        user_is_admin = is_admin\<rparr>)"
proof -
  from create_user_Inr[OF assms] obtain t s where
    db: "db = Some t" and pw: "password = PyStr s" "s \<noteq> []" and
    u: "strip L (or_empty username) \<noteq> []" and
    fresh: "select_user t (strip L (or_empty username)) = None" and
    db': "db' = Some \<lparr>tbl_rows = tbl_rows t @
                   [\<lparr>row_id = Suc (tbl_seq t), row_username = strip L (or_empty username),
                     row_salt = token_bytes d,
                     row_pw_hash = pbkdf2_hmac_sha256 L s (token_bytes d) 200000,
                     row_is_admin = (if is_admin then 1 else 0), row_created_at = datetime_now d\<rparr>],
                 tbl_seq = Suc (tbl_seq t)\<rparr>"
    by blast
  from fresh have "find (\<lambda>r. row_username r = strip L (or_empty username)) (tbl_rows t) = None"
    by (simp add: select_user_def)
  then show ?thesis
    using u pw
    by (simp add: db db' authenticate_def select_user_def find_append hash_password_def to_user_def)
qed

theorem create_then_authenticate_witness:
  "snd (create_user demo_lib (demo_draw 7) (Some empty_table) (Some (ascii '' alice ''))
          (PyStr (ascii ''Valid123!'')) False True) = Inr () \<and>
   authenticate demo_lib
       (fst (create_user demo_lib (demo_draw 7) (Some empty_table) (Some (ascii '' alice ''))
          (PyStr (ascii ''Valid123!'')) False True))
       (Some (ascii '' alice '')) (PyStr (ascii ''Valid123!'')) =
     Inr (Some \<lparr>user_id = 1, user_username = ascii ''alice'', user_is_admin = False\<rparr>)"
proof -
  let ?c = "create_user demo_lib (demo_draw 7) (Some empty_table) (Some (ascii '' alice ''))
          (PyStr (ascii ''Valid123!'')) False True"
  have ok: "snd ?c = Inr ()"
    by (simp add: lib_defs op_defs)
  then have "?c = (fst ?c, Inr ())"
    by (metis prod.collapse)
  from create_then_authenticate[OF this] ok show ?thesis
    by (simp add: lib_defs)
qed

section \<open>C3: the password policy\<close>

text \<open>
  C3 (as amended). For every string, \<^verbatim>\<open>validate_password_rules\<close> checks five rules in
  this order, and the first one that fails gives the result, false with the message of that
  rule: at least 8 characters; a lowercase letter; an uppercase letter; a digit; a
  character that is neither a word character (alphanumeric or the underscore) nor
  whitespace. It returns \<^verbatim>\<open>(True, "OK")\<close> exactly when all five rules hold, and in no other
  case is the first component true. \<^verbatim>\<open>"Valid123!"\<close> is accepted; \<^verbatim>\<open>"short1!"\<close>,
  \<^verbatim>\<open>"alllowercase1!"\<close>, \<^verbatim>\<open>"NoDigits!"\<close> and \<^verbatim>\<open>"NoSpecial123"\<close> are rejected for length,
  uppercase, digit and special character. The letters and the digit are those of the
  patterns \<^verbatim>\<open>[a-z]\<close>, \<^verbatim>\<open>[A-Z]\<close> and \<^verbatim>\<open>\d\<close>.
\<close>

theorem validate_password_rules_spec:
  "validate_password_rules L (PyStr s) =
     (if length s < 8 then (False, ''Password must be at least 8 characters.'')
      else if \<not> (\<exists>c\<in>set s. re_lower c) then
        (False, ''Password must contain at least one lowercase letter.'')
      else if \<not> (\<exists>c\<in>set s. re_upper c) then
        (False, ''Password must contain at least one uppercase letter.'')
      else if \<not> (\<exists>c\<in>set s. re_digit L c) then
        (False, ''Password must contain at least one digit.'')
      else if \<not> (\<exists>c\<in>set s. \<not> re_word L c \<and> \<not> isspace L c) then
        (False, ''Password must contain at least one special character (e.g., !@#$%).'')
      else (True, ''OK'')) \<and>
   (validate_password_rules L (PyStr s) = (True, ''OK'') \<longleftrightarrow>
      8 \<le> length s \<and> (\<exists>c\<in>set s. re_lower c) \<and> (\<exists>c\<in>set s. re_upper c) \<and>
      (\<exists>c\<in>set s. re_digit L c) \<and> (\<exists>c\<in>set s. \<not> re_word L c \<and> \<not> isspace L c)) \<and>
   (fst (validate_password_rules L (PyStr s)) \<longleftrightarrow>
      validate_password_rules L (PyStr s) = (True, ''OK'')) \<and>
   validate_password_rules L (PyStr (ascii ''Valid123!'')) = (True, ''OK'') \<and>
   validate_password_rules L (PyStr (ascii ''short1!'')) =
     (False, ''Password must be at least 8 characters.'') \<and>
   validate_password_rules L (PyStr (ascii ''alllowercase1!'')) =
     (False, ''Password must contain at least one uppercase letter.'') \<and>
   validate_password_rules L (PyStr (ascii ''NoDigits!'')) =
     (False, ''Password must contain at least one digit.'') \<and>
   validate_password_rules L (PyStr (ascii ''NoSpecial123'')) =
     (False, ''Password must contain at least one special character (e.g., !@#$%).'')"
proof -
  have general: "validate_password_rules L (PyStr s) =
     (if length s < 8 then (False, ''Password must be at least 8 characters.'')
      else if \<not> (\<exists>c\<in>set s. re_lower c) then
        (False, ''Password must contain at least one lowercase letter.'')
      else if \<not> (\<exists>c\<in>set s. re_upper c) then
        (False, ''Password must contain at least one uppercase letter.'')
      else if \<not> (\<exists>c\<in>set s. re_digit L c) then
        (False, ''Password must contain at least one digit.'')
      else if \<not> (\<exists>c\<in>set s. \<not> re_word L c \<and> \<not> isspace L c) then
        (False, ''Password must contain at least one special character (e.g., !@#$%).'')
      else (True, ''OK''))"
    by (simp add: validate_password_rules_def re_search_def list_ex_iff re_special_def)
  have exact: "validate_password_rules L (PyStr s) = (True, ''OK'') \<longleftrightarrow>
      8 \<le> length s \<and> (\<exists>c\<in>set s. re_lower c) \<and> (\<exists>c\<in>set s. re_upper c) \<and>
      (\<exists>c\<in>set s. re_digit L c) \<and> (\<exists>c\<in>set s. \<not> re_word L c \<and> \<not> isspace L c)"
    unfolding general by (simp add: not_less)
  have first: "fst (validate_password_rules L (PyStr s)) \<longleftrightarrow>
      validate_password_rules L (PyStr s) = (True, ''OK'')"
    unfolding general by simp
  have ex1: "validate_password_rules L (PyStr (ascii ''Valid123!'')) = (True, ''OK'')"
    by (simp add: validate_password_rules_def ascii_def isspace_def isalnum_def re_lower_def
        re_upper_def re_digit_def re_word_def re_special_def re_search_def)
  have ex2: "validate_password_rules L (PyStr (ascii ''short1!'')) =
     (False, ''Password must be at least 8 characters.'')"
    by (simp add: validate_password_rules_def ascii_def)
  have ex3: "validate_password_rules L (PyStr (ascii ''alllowercase1!'')) =
     (False, ''Password must contain at least one uppercase letter.'')"
    by (simp add: validate_password_rules_def ascii_def isspace_def isalnum_def re_lower_def
        re_upper_def re_digit_def re_word_def re_special_def re_search_def)
  have ex4: "validate_password_rules L (PyStr (ascii ''NoDigits!'')) =
     (False, ''Password must contain at least one digit.'')"
    by (simp add: validate_password_rules_def ascii_def isspace_def isalnum_def re_lower_def
        re_upper_def re_digit_def re_word_def re_special_def re_search_def)
  have ex5: "validate_password_rules L (PyStr (ascii ''NoSpecial123'')) =
     (False, ''Password must contain at least one special character (e.g., !@#$%).'')"
    by (simp add: validate_password_rules_def ascii_def isspace_def isalnum_def re_lower_def
        re_upper_def re_digit_def re_word_def re_special_def re_search_def)
  show ?thesis
    by (intro conjI, rule general, rule exact, rule first,
        rule ex1, rule ex2, rule ex3, rule ex4, rule ex5)
qed

theorem validate_password_rules_spec_witness:
  "validate_password_rules demo_lib (PyStr (ascii ''short1!'')) =
     (False, ''Password must be at least 8 characters.'') \<and>
   validate_password_rules demo_lib (PyStr (ascii ''ALLUPPER1!'')) =
     (False, ''Password must contain at least one lowercase letter.'') \<and>
   validate_password_rules demo_lib (PyStr (ascii ''alllowercase1!'')) =
     (False, ''Password must contain at least one uppercase letter.'') \<and>
   validate_password_rules demo_lib (PyStr (ascii ''NoDigits!'')) =
     (False, ''Password must contain at least one digit.'') \<and>
   validate_password_rules demo_lib (PyStr (ascii ''NoSpecial123'')) =
     (False, ''Password must contain at least one special character (e.g., !@#$%).'') \<and>
   validate_password_rules demo_lib (PyStr (ascii ''Under_score1'')) =
     (False, ''Password must contain at least one special character (e.g., !@#$%).'') \<and>
   validate_password_rules demo_lib (PyStr (ascii ''Valid123!'')) = (True, ''OK'') \<and>
   validate_password_rules demo_lib (PyStr (ascii ''Pass word1'')) =
     (False, ''Password must contain at least one special character (e.g., !@#$%).'')"
proof -
  note t = validate_password_rules_spec
  have r1: "validate_password_rules demo_lib (PyStr (ascii ''short1!'')) =
     (False, ''Password must be at least 8 characters.'')"
    using t[of demo_lib "ascii ''short1!''"] by (simp add: lib_defs)
  have r2: "validate_password_rules demo_lib (PyStr (ascii ''ALLUPPER1!'')) =
     (False, ''Password must contain at least one lowercase letter.'')"
    using t[of demo_lib "ascii ''ALLUPPER1!''"] by (simp add: lib_defs)
  have r3: "validate_password_rules demo_lib (PyStr (ascii ''alllowercase1!'')) =
     (False, ''Password must contain at least one uppercase letter.'')"
    using t[of demo_lib "ascii ''alllowercase1!''"] by (simp add: lib_defs)
  have r4: "validate_password_rules demo_lib (PyStr (ascii ''NoDigits!'')) =
     (False, ''Password must contain at least one digit.'')"
    using t[of demo_lib "ascii ''NoDigits!''"] by (simp add: lib_defs)
  have r5: "validate_password_rules demo_lib (PyStr (ascii ''NoSpecial123'')) =
     (False, ''Password must contain at least one special character (e.g., !@#$%).'')"
    using t[of demo_lib "ascii ''NoSpecial123''"] by (simp add: lib_defs)
  have r6: "validate_password_rules demo_lib (PyStr (ascii ''Under_score1'')) =
     (False, ''Password must contain at least one special character (e.g., !@#$%).'')"
    using t[of demo_lib "ascii ''Under_score1''"] by (simp add: lib_defs)
  have r7: "validate_password_rules demo_lib (PyStr (ascii ''Valid123!'')) = (True, ''OK'')"
    using t[of demo_lib "ascii ''Valid123!''"] by (simp add: lib_defs)
  have r8: "validate_password_rules demo_lib (PyStr (ascii ''Pass word1'')) =
     (False, ''Password must contain at least one special character (e.g., !@#$%).'')"
    using t[of demo_lib "ascii ''Pass word1''"] by (simp add: lib_defs)
  from r1 r2 r3 r4 r5 r6 r7 r8 show ?thesis by simp
qed

text \<open>
  The claim as first stated reads the fifth rule as "neither alphanumeric nor
  whitespace". The underscore is such a character, yet the pattern \<^verbatim>\<open>[^\w\s]\<close> does
  not match it: \<^verbatim>\<open>"Passw0rd_"\<close> satisfies the five rules in those words and is rejected.
\<close>

theorem validate_password_rules_underscore:
  "spec_policy demo_lib (ascii ''Passw0rd_'') \<and>
   validate_password_rules demo_lib (PyStr (ascii ''Passw0rd_'')) =
     (False, ''Password must contain at least one special character (e.g., !@#$%).'')"
  by (simp add: spec_policy_def spec_special_def lib_defs validate_password_rules_def)

section \<open>C4: creating an account whose username exists\<close>

text \<open>
  C4 (as amended). When the table holds an account with the trimmed username,
  \<^verbatim>\<open>create_user\<close> raises and leaves the database as it was: the policy's
  \<^verbatim>\<open>ValueError\<close> when \<open>enforce_rules\<close> is set and the password fails the policy, the
  hasher's \<^verbatim>\<open>ValueError\<close> when the password is empty or not a string, and otherwise the
  uniqueness error. The table still has exactly one row with that username.
\<close>

theorem create_user_existing_username:
  assumes "select_user t (strip L (or_empty username)) = Some r" and "table_ok t"
  shows "create_user L d (Some t) username password is_admin enforce_rules =
           (Some t,
            Inl (if enforce_rules \<and> \<not> fst (validate_password_rules L password)
                 then ValueError (snd (validate_password_rules L password))
                 else if (\<exists>s. password = PyStr s \<and> s \<noteq> []) then IntegrityError
                 else ValueError ''Password must be a non-empty string.'')) \<and>
         length (filter (\<lambda>r. row_username r = strip L (or_empty username)) (tbl_rows t)) = 1"
proof -
  from select_user_Some[OF assms(1)] have r: "r \<in> set (tbl_rows t)"
    and ru: "row_username r = strip L (or_empty username)" by auto
  with assms(2) have ne: "strip L (or_empty username) \<noteq> []"
    by (auto simp: table_ok_def)
  have ex: "list_ex (\<lambda>r. row_username r = strip L (or_empty username)) (tbl_rows t)"
    using r ru by (auto simp: list_ex_iff)
  have "create_user L d (Some t) username password is_admin enforce_rules =
           (Some t,
            Inl (if enforce_rules \<and> \<not> fst (validate_password_rules L password)
                 then ValueError (snd (validate_password_rules L password))
                 else if (\<exists>s. password = PyStr s \<and> s \<noteq> []) then IntegrityError
                 else ValueError ''Password must be a non-empty string.''))"
    using ne ex
    by (auto simp: create_user_def Let_def hash_password_def insert_user_def split: pyval.splits)
  with table_ok_count[OF assms(2,1)] show ?thesis by simp
qed

theorem create_user_existing_username_witness:
  "create_user demo_lib (demo_draw 5) (Some demo_table) (Some (ascii ''admin''))
     (PyStr (ascii ''Other456?'')) False True = (Some demo_table, Inl IntegrityError) \<and>
   length (filter (\<lambda>r. row_username r = ascii ''admin'') (tbl_rows demo_table)) = 1"
proof -
  have v: "fst (validate_password_rules demo_lib (PyStr (ascii ''Other456?'')))"
    by (simp add: lib_defs validate_password_rules_def)
  have s: "strip demo_lib (or_empty (Some (ascii ''admin''))) = ascii ''admin''"
    by (simp add: lib_defs)
  from create_user_existing_username[OF demo_select_admin demo_table_ok,
      of "demo_draw 5" "PyStr (ascii ''Other456?'')" False True] v s
  show ?thesis by (simp add: ascii_def)
qed

text \<open>
  The claim as first stated has the second call fail with the uniqueness error for any
  password. The password is validated before the table is touched: with the account
  \<^verbatim>\<open>admin\<close> present, \<^verbatim>\<open>create_user("admin", "short")\<close> raises the policy's error.
\<close>

theorem create_user_existing_policy_error:
  "select_user demo_table (ascii ''admin'') = Some (hd (tbl_rows demo_table)) \<and>
   create_user demo_lib (demo_draw 5) (Some demo_table) (Some (ascii ''admin''))
     (PyStr (ascii ''short'')) False True =
     (Some demo_table, Inl (ValueError ''Password must be at least 8 characters.''))"
  by (simp add: lib_defs op_defs demo_table_def)

section \<open>C5: resetting a password\<close>




section \<open>C7: deleting an account\<close>

text \<open>
  C7. On a table that only this module has written, \<^verbatim>\<open>delete_user(username)\<close> raises
  nothing: it removes the rows with the trimmed username, keeps every other row as it is
  and in its place, and returns whether such a row was there. When there is no such row it
  returns false and leaves the database as it was.
\<close>

theorem delete_user_spec:
  assumes "table_ok t"
  shows "delete_user L (Some t) username =
           (Some (t\<lparr>tbl_rows :=
                    filter (\<lambda>r. row_username r \<noteq> strip L (or_empty username)) (tbl_rows t)\<rparr>),
            Inr (\<exists>r\<in>set (tbl_rows t). row_username r = strip L (or_empty username))) \<and>
         (select_user t (strip L (or_empty username)) = None \<longrightarrow>
            delete_user L (Some t) username = (Some t, Inr False))"
proof -
  let ?u = "strip L (or_empty username)"
  let ?kept = "filter (\<lambda>r. row_username r \<noteq> ?u) (tbl_rows t)"
  have len: "(0 < length (tbl_rows t) - length ?kept) = (\<exists>r\<in>set (tbl_rows t). row_username r = ?u)"
  proof -
    have "length (tbl_rows t) = length ?kept + length (filter (\<lambda>r. row_username r = ?u) (tbl_rows t))"
      using sum_length_filter_compl[of "\<lambda>r. row_username r = ?u" "tbl_rows t"] by simp
    then have "(0 < length (tbl_rows t) - length ?kept) =
               (filter (\<lambda>r. row_username r = ?u) (tbl_rows t) \<noteq> [])" by auto
    then show ?thesis by (auto simp: filter_empty_conv)
  qed
  have first: "delete_user L (Some t) username =
           (Some (t\<lparr>tbl_rows := ?kept\<rparr>), Inr (\<exists>r\<in>set (tbl_rows t). row_username r = ?u))"
  proof (cases "?u = []")
    case True
    with assms have none: "\<forall>r\<in>set (tbl_rows t). row_username r \<noteq> ?u"
      by (auto simp: table_ok_def)
    then have "?kept = tbl_rows t" by (simp add: filter_id_conv)
    with True none show ?thesis
      by (simp add: delete_user_def)
  next
    case False
    then show ?thesis
      using len by (simp add: delete_user_def Let_def)
  qed
  have second: "delete_user L (Some t) username = (Some t, Inr False)"
    if "select_user t ?u = None"
  proof -
    from that have none: "\<forall>r\<in>set (tbl_rows t). row_username r \<noteq> ?u"
      by (simp add: select_user_None)
    then have "?kept = tbl_rows t" by (simp add: filter_id_conv)
    with none first show ?thesis by simp
  qed
  from first second show ?thesis by blast
qed

theorem delete_user_spec_witness:
  "delete_user demo_lib (Some demo_table) (Some (ascii ''guest'')) =
     (Some (demo_table\<lparr>tbl_rows := [hd (tbl_rows demo_table)]\<rparr>), Inr True) \<and>
   select_user demo_table (ascii ''nobody'') = None \<and>
   delete_user demo_lib (Some demo_table) (Some (ascii ''nobody'')) = (Some demo_table, Inr False)"
proof -
  have s1: "strip demo_lib (or_empty (Some (ascii ''guest''))) = ascii ''guest''"
    and s2: "strip demo_lib (or_empty (Some (ascii ''nobody''))) = ascii ''nobody''"
    by (simp_all add: lib_defs)
  have n: "select_user demo_table (ascii ''nobody'') = None"
    by (simp add: select_user_def demo_table_def ascii_def)
  have f: "filter (\<lambda>r. row_username r \<noteq> ascii ''guest'') (tbl_rows demo_table) =
             [hd (tbl_rows demo_table)]"
    and e: "\<exists>r\<in>set (tbl_rows demo_table). row_username r = ascii ''guest''"
    by (simp_all add: demo_table_def ascii_def)
  from delete_user_spec[OF demo_table_ok, of demo_lib "Some (ascii ''guest'')"]
  have "delete_user demo_lib (Some demo_table) (Some (ascii ''guest'')) =
     (Some (demo_table\<lparr>tbl_rows := [hd (tbl_rows demo_table)]\<rparr>), Inr True)"
    unfolding s1 f using e by simp
  moreover from delete_user_spec[OF demo_table_ok, of demo_lib "Some (ascii ''nobody'')"] n
  have "delete_user demo_lib (Some demo_table) (Some (ascii ''nobody'')) = (Some demo_table, Inr False)"
    unfolding s2 by blast
  ultimately show ?thesis using n by simp
qed

section \<open>C9: authentication with degenerate input\<close>

text \<open>
  C9. \<^verbatim>\<open>authenticate\<close> returns \<^verbatim>\<open>None\<close>, and raises nothing, when the username is
  \<^verbatim>\<open>None\<close>, empty or only whitespace (whatever the database, even without the table),
  and, on any table, when the password is empty or not a string: the hasher's
  \<^verbatim>\<open>ValueError\<close> does not reach the caller.
\<close>

theorem authenticate_degenerate:
  "(strip L (or_empty username) = [] \<longrightarrow> authenticate L db username password = Inr None) \<and>
   ((\<forall>s. password = PyStr s \<longrightarrow> s = []) \<longrightarrow>
      authenticate L (Some t) username password = Inr None)"
  by (cases password)
     (auto simp: authenticate_def Let_def hash_password_def split: option.splits)

theorem authenticate_degenerate_witness:
  "strip demo_lib (or_empty (Some (ascii ''  ''))) = [] \<and>
   authenticate demo_lib None (Some (ascii ''  '')) (PyStr (ascii ''Admin123!'')) = Inr None \<and>
   authenticate demo_lib (Some demo_table) None (PyStr (ascii ''Admin123!'')) = Inr None \<and>
   authenticate demo_lib (Some demo_table) (Some (ascii ''admin'')) (PyStr []) = Inr None \<and>
   authenticate demo_lib (Some demo_table) (Some (ascii ''admin'')) PyNone = Inr None \<and>
   authenticate demo_lib (Some demo_table) (Some (ascii ''admin'')) (PyInt 7) = Inr None"
proof -
  have e1: "strip demo_lib (or_empty (Some (ascii ''  ''))) = []"
    and e2: "strip demo_lib (or_empty None) = []"
    by (simp_all add: lib_defs)
  note a = authenticate_degenerate
  from a[of demo_lib "Some (ascii ''  '')" None "PyStr (ascii ''Admin123!'')"] e1
  have r1: "authenticate demo_lib None (Some (ascii ''  '')) (PyStr (ascii ''Admin123!'')) = Inr None"
    by blast
  from a[of demo_lib None "Some demo_table" "PyStr (ascii ''Admin123!'')"] e2
  have r2: "authenticate demo_lib (Some demo_table) None (PyStr (ascii ''Admin123!'')) = Inr None"
    by blast
  from a[of demo_lib "Some (ascii ''admin'')" _ "PyStr []" demo_table]
  have r3: "authenticate demo_lib (Some demo_table) (Some (ascii ''admin'')) (PyStr []) = Inr None"
    by simp
  from a[of demo_lib "Some (ascii ''admin'')" _ PyNone demo_table]
  have r4: "authenticate demo_lib (Some demo_table) (Some (ascii ''admin'')) PyNone = Inr None"
    by simp
  from a[of demo_lib "Some (ascii ''admin'')" _ "PyInt 7" demo_table]
  have r5: "authenticate demo_lib (Some demo_table) (Some (ascii ''admin'')) (PyInt 7) = Inr None"
    by simp
  from e1 r1 r2 r3 r4 r5 show ?thesis by simp
qed

section \<open>C10: the password policy comes before the lookup\<close>

text \<open>
  C10 (as amended). For a username that is not empty after trimming,
  \<^verbatim>\<open>set_password\<close> with a password that fails the policy raises the policy's
  \<^verbatim>\<open>ValueError\<close> and leaves the database as it was, whether or not the username has a
  row; with a password that passes the policy and a username without a row it returns
  false and leaves the database as it was. For a username that is \<^verbatim>\<open>None\<close>, empty or of
  whitespace only it returns false and leaves the database as it was, whatever the
  password is and whether or not the table exists.
\<close>

theorem set_password_unknown_user:
  "(strip L (or_empty username) \<noteq> [] \<and> \<not> fst (validate_password_rules L new_password) \<longrightarrow>
      set_password L d db username new_password =
        (db, Inl (ValueError (snd (validate_password_rules L new_password))))) \<and>
   (strip L (or_empty username) \<noteq> [] \<and> fst (validate_password_rules L new_password) \<and>
    select_user t (strip L (or_empty username)) = None \<longrightarrow>
      set_password L d (Some t) username new_password = (Some t, Inr False)) \<and>
   (strip L (or_empty username) = [] \<longrightarrow>
      set_password L d db username new_password = (db, Inr False))"
proof -
  let ?u = "strip L (or_empty username)"
  have bad: "set_password L d db username new_password =
              (db, Inl (ValueError (snd (validate_password_rules L new_password))))"
    if "?u \<noteq> []" and "\<not> fst (validate_password_rules L new_password)"
    using that by (simp add: set_password_def)
  have good: "set_password L d (Some t) username new_password = (Some t, Inr False)"
    if u: "?u \<noteq> []" and v: "fst (validate_password_rules L new_password)"
      and n: "select_user t ?u = None"
  proof -
    from validate_ok_nonempty[OF v] obtain s where s: "new_password = PyStr s" "s \<noteq> []" by blast
    from n have none: "\<forall>r\<in>set (tbl_rows t). row_username r \<noteq> ?u"
      by (simp add: select_user_None)
    then have f: "filter (\<lambda>r. row_username r = ?u) (tbl_rows t) = []"
      by (simp add: filter_empty_conv)
    have m: "map (\<lambda>r. if row_username r = ?u
                       then r\<lparr>row_salt := token_bytes d,
                              row_pw_hash := pbkdf2_hmac_sha256 L s (token_bytes d) 200000\<rparr>
                       else r) (tbl_rows t) = tbl_rows t"
      using none by (simp add: map_idI)
    show ?thesis
      using u v s by (simp add: set_password_def Let_def hash_password_def f m)
  qed
  have empty: "set_password L d db username new_password = (db, Inr False)" if "?u = []"
    using that by (simp add: set_password_def)
  from bad good empty show ?thesis by blast
qed

theorem set_password_unknown_user_witness:
  "strip demo_lib (or_empty (Some (ascii ''nobody''))) \<noteq> [] \<and>
   \<not> fst (validate_password_rules demo_lib (PyStr (ascii ''short''))) \<and>
   set_password demo_lib (demo_draw 9) (Some demo_table) (Some (ascii ''nobody''))
     (PyStr (ascii ''short'')) =
     (Some demo_table, Inl (ValueError ''Password must be at least 8 characters.'')) \<and>
   fst (validate_password_rules demo_lib (PyStr (ascii ''Fresh456?''))) \<and>
   select_user demo_table (strip demo_lib (or_empty (Some (ascii ''nobody'')))) = None \<and>
   set_password demo_lib (demo_draw 9) (Some demo_table) (Some (ascii ''nobody''))
     (PyStr (ascii ''Fresh456?'')) = (Some demo_table, Inr False) \<and>
   strip demo_lib (or_empty None) = [] \<and>
   set_password demo_lib (demo_draw 9) (Some demo_table) None (PyStr (ascii ''short'')) =
     (Some demo_table, Inr False) \<and>
   strip demo_lib (or_empty (Some (ascii ''   ''))) = [] \<and>
   set_password demo_lib (demo_draw 9) None (Some (ascii ''   '')) (PyInt 7) = (None, Inr False)"
proof -
  have u: "strip demo_lib (or_empty (Some (ascii ''nobody''))) \<noteq> []"
    by (simp add: lib_defs)
  have b: "\<not> fst (validate_password_rules demo_lib (PyStr (ascii ''short'')))"
    and bm: "snd (validate_password_rules demo_lib (PyStr (ascii ''short''))) =
               ''Password must be at least 8 characters.''"
    by (simp_all add: validate_password_rules_def ascii_def)
  have g: "fst (validate_password_rules demo_lib (PyStr (ascii ''Fresh456?'')))"
    by (simp add: lib_defs validate_password_rules_def)
  have n: "select_user demo_table (strip demo_lib (or_empty (Some (ascii ''nobody'')))) = None"
    by (simp add: lib_defs select_user_def demo_table_def)
  have e1: "strip demo_lib (or_empty None) = []"
    by (simp add: lib_defs)
  have e2: "strip demo_lib (or_empty (Some (ascii ''   ''))) = []"
    by (simp add: lib_defs)
  from set_password_unknown_user[of demo_lib "Some (ascii ''nobody'')" "PyStr (ascii ''short'')"
      "demo_draw 9" "Some demo_table"] u b bm
  have r1: "set_password demo_lib (demo_draw 9) (Some demo_table) (Some (ascii ''nobody''))
     (PyStr (ascii ''short'')) =
     (Some demo_table, Inl (ValueError ''Password must be at least 8 characters.''))"
    by simp
  from set_password_unknown_user[of demo_lib "Some (ascii ''nobody'')" "PyStr (ascii ''Fresh456?'')"
      "demo_draw 9" _ demo_table] u g n
  have r2: "set_password demo_lib (demo_draw 9) (Some demo_table) (Some (ascii ''nobody''))
     (PyStr (ascii ''Fresh456?'')) = (Some demo_table, Inr False)"
    by blast
  from set_password_unknown_user[of demo_lib None "PyStr (ascii ''short'')"
      "demo_draw 9" "Some demo_table"] e1
  have r3: "set_password demo_lib (demo_draw 9) (Some demo_table) None (PyStr (ascii ''short'')) =
     (Some demo_table, Inr False)"
    by blast
  from set_password_unknown_user[of demo_lib "Some (ascii ''   '')" "PyInt 7" "demo_draw 9" None] e2
  have r4: "set_password demo_lib (demo_draw 9) None (Some (ascii ''   '')) (PyInt 7) =
     (None, Inr False)"
    by blast
  from u b g n e1 e2 r1 r2 r3 r4 show ?thesis by blast
qed

text \<open>
  The claim as first stated covers every username without a row. The empty username has
  none, and for it (and for \<^verbatim>\<open>None\<close> and for one of whitespace only) \<^verbatim>\<open>set_password\<close>
  returns false before it looks at the password: no error is raised for \<^verbatim>\<open>"short"\<close>.
\<close>

theorem set_password_empty_username:
  "select_user demo_table [] = None \<and>
   \<not> fst (validate_password_rules demo_lib (PyStr (ascii ''short''))) \<and>
   set_password demo_lib (demo_draw 9) (Some demo_table) (Some [])
     (PyStr (ascii ''short'')) = (Some demo_table, Inr False) \<and>
   set_password demo_lib (demo_draw 9) (Some demo_table) (Some (ascii ''   ''))
     (PyStr (ascii ''short'')) = (Some demo_table, Inr False) \<and>
   set_password demo_lib (demo_draw 9) (Some demo_table) None
     (PyStr (ascii ''short'')) = (Some demo_table, Inr False)"
  by (simp add: lib_defs op_defs demo_table_def)

section \<open>C8: the listing\<close>

text \<open>
  C8 (as amended). On a table that only this module has written, \<^verbatim>\<open>list_users\<close>
  returns the (username, is_admin) pairs of exactly the rows of the table, every admin
  before every other account and, among accounts with the same flag, in strictly ascending
  order of the usernames compared code point by code point (SQLite's BINARY collation),
  in which every capital letter comes before every small one. The result depends on the
  rows only, not on the order in which they were inserted.
\<close>

theorem list_users_order:
  assumes "table_ok t"
  shows "\<exists>out. list_users (Some t) = Inr out \<and>
           mset out = mset (map (\<lambda>r. (row_username r, row_is_admin r \<noteq> 0)) (tbl_rows t)) \<and>
           admins_first_by_code_point out \<and>
           (\<forall>t'. table_ok t' \<and> mset (tbl_rows t') = mset (tbl_rows t) \<longrightarrow>
                  list_users (Some t') = Inr out)"
proof -
  let ?k = "\<lambda>r. (- row_is_admin r, row_username r)"
  let ?p = "\<lambda>r. (row_username r, row_is_admin r \<noteq> 0)"
  let ?srt = "sort_key ?k (tbl_rows t)"
  have lu: "list_users (Some t) = Inr (map ?p ?srt)"
    by (simp add: list_users_def)
  have ms: "mset (map ?p ?srt) = mset (map ?p (tbl_rows t))"
    by simp
  have flags: "\<forall>r\<in>set ?srt. row_is_admin r = 0 \<or> row_is_admin r = 1"
    using assms by (simp add: table_ok_def)
  have "sorted_wrt (\<lambda>a b. ?k a < ?k b) ?srt"
    using sort_key_rows_strict[OF assms] by (simp add: sorted_wrt_map)
  then have "sorted_wrt (\<lambda>a b. (snd (?p b) \<longrightarrow> snd (?p a)) \<and>
                               (snd (?p a) = snd (?p b) \<longrightarrow> fst (?p a) < fst (?p b))) ?srt"
  proof (rule sorted_wrt_mono_rel[rotated])
    fix a b assume a: "a \<in> set ?srt" and b: "b \<in> set ?srt" and lt: "?k a < ?k b"
    from flags a b have fa: "row_is_admin a = 0 \<or> row_is_admin a = 1"
      and fb: "row_is_admin b = 0 \<or> row_is_admin b = 1" by auto
    from lt have "- row_is_admin a < - row_is_admin b \<or>
                  (- row_is_admin a \<le> - row_is_admin b \<and> row_username a < row_username b)"
      by (simp add: less_prod_def)
    with fa fb show "(snd (?p b) \<longrightarrow> snd (?p a)) \<and>
                     (snd (?p a) = snd (?p b) \<longrightarrow> fst (?p a) < fst (?p b))"
      by auto
  qed
  then have ord: "admins_first_by_code_point (map ?p ?srt)"
    by (simp add: admins_first_by_code_point_def sorted_wrt_map)
  have det: "list_users (Some t') = Inr (map ?p ?srt)"
    if ok: "table_ok t'" and same: "mset (tbl_rows t') = mset (tbl_rows t)" for t'
  proof -
    have "distinct (map row_username (tbl_rows t'))"
      using ok by (simp add: table_ok_def)
    then have "inj_on row_username (set (tbl_rows t'))"
      by (simp add: distinct_map)
    then have inj: "inj_on ?k (set (tbl_rows t'))"
      by (auto simp: inj_on_def)
    have "sort_key ?k (tbl_rows t') = ?srt"
      by (rule sort_key_inj_key_eq[OF _ inj]) (simp_all add: same)
    then show ?thesis by (simp add: list_users_def)
  qed
  from lu ms ord det show ?thesis by blast
qed

theorem list_users_order_witness:
  "table_ok listing_table \<and>
   list_users (Some listing_table) =
     Inr [(ascii ''admin'', True), (ascii ''zoe'', True),
          (ascii ''Zed'', False), (ascii ''amy'', False)] \<and>
   admins_first_by_code_point
     [(ascii ''admin'', True), (ascii ''zoe'', True),
      (ascii ''Zed'', False), (ascii ''amy'', False)]"
proof -
  have ok: "table_ok listing_table"
    by (simp add: table_ok_def listing_table_def ascii_def)
  have lu: "list_users (Some listing_table) =
     Inr [(ascii ''admin'', True), (ascii ''zoe'', True),
          (ascii ''Zed'', False), (ascii ''amy'', False)]"
    by (simp add: list_users_def listing_table_def ascii_def)
  from list_users_order[OF ok] obtain out where
    "list_users (Some listing_table) = Inr out" and "admins_first_by_code_point out"
    by blast
  with lu ok show ?thesis by simp
qed

text \<open>
  The claim as first stated has the accounts with the same flag in alphabetical order.
  The comparison is by code point: \<^verbatim>\<open>Zed\<close> is listed before \<^verbatim>\<open>amy\<close>, which is not the
  order of the alphabet; in that order \<^verbatim>\<open>amy\<close> comes first.
\<close>

theorem list_users_capitals_first:
  "table_ok listing_table \<and>
   list_users (Some listing_table) =
     Inr [(ascii ''admin'', True), (ascii ''zoe'', True),
          (ascii ''Zed'', False), (ascii ''amy'', False)] \<and>
   \<not> spec_admins_first_alphabetical
     [(ascii ''admin'', True), (ascii ''zoe'', True),
      (ascii ''Zed'', False), (ascii ''amy'', False)] \<and>
   spec_admins_first_alphabetical
     [(ascii ''admin'', True), (ascii ''zoe'', True),
      (ascii ''amy'', False), (ascii ''Zed'', False)]"
proof -
  have ok: "table_ok listing_table"
    by (simp add: table_ok_def listing_table_def ascii_def)
  have lu: "list_users (Some listing_table) =
     Inr [(ascii ''admin'', True), (ascii ''zoe'', True),
          (ascii ''Zed'', False), (ascii ''amy'', False)]"
    by (simp add: list_users_def listing_table_def ascii_def)
  have no: "\<not> spec_admins_first_alphabetical
     [(ascii ''admin'', True), (ascii ''zoe'', True),
      (ascii ''Zed'', False), (ascii ''amy'', False)]"
    by (simp add: spec_admins_first_alphabetical_def spec_alphabetical_def fold_case_def ascii_def)
  have yes: "spec_admins_first_alphabetical
     [(ascii ''admin'', True), (ascii ''zoe'', True),
      (ascii ''amy'', False), (ascii ''Zed'', False)]"
    by (simp add: spec_admins_first_alphabetical_def spec_alphabetical_def fold_case_def ascii_def)
  from ok lu no yes show ?thesis by simp
qed

section \<open>C6: initialisation is idempotent\<close>



end
